theory Spec2Isabelle
  imports Main "HOL-Library.Multiset"
begin

section \<open>The blog backend of server.js\<close>

text \<open>
  The program is one Express application: two Mongoose models (User, Post), the
  middleware \<open>authenticateToken\<close>, the multer upload middleware and eight route
  handlers. The embedding keeps the document store as two lists in insertion order,
  passes the store through every handler, and returns the HTTP response as a value.

  Four libraries decide values that the handlers only pass on: jsonwebtoken (the
  encoding of a signed token), bcryptjs (the digest of a password), bson (which strings
  are ObjectIds) and path (the extension of a file name). They are not part of
  server.js; they are fields of the record \<open>env\<close>, and every theorem holds for any
  functions there. The clock (\<open>Date.now()\<close>) and the identifier that
  \<open>new Model(...)\<close> generates are arguments of the handler that reads them.
  Request fields are the strings the body parser delivers; a multipart text field can
  be absent. The \<open>password\<close> of a JSON body is optional: \<open>None\<close> when the body has no
  string there (the field is absent or of another JSON type), and then bcryptjs throws
  instead of hashing or comparing. Faults of the database connection are outside the
  model: a store operation fails only on the data (a cast, a schema validator, a
  unique index).
\<close>

subsection \<open>Schemas\<close>

type_synonym objectid = string
  \<comment> \<open>an ObjectId, as the string that \<open>toString()\<close> and JSON give for it\<close>

text \<open>\<open>userSchema\<close> with \<open>timestamps: true\<close>; the field names carry the prefix \<open>u_\<close>.\<close>

record user =
  u_id :: objectid
  u_username :: string
  u_email :: string
  u_password :: string
  u_createdAt :: nat
  u_updatedAt :: nat

text \<open>\<open>postSchema\<close> with \<open>timestamps: true\<close>; \<open>image\<close> is \<open>null\<close> (\<open>None\<close>) or a path.\<close>

record post =
  p_id :: objectid
  p_title :: string
  p_content :: string
  p_image :: "string option"
  p_author :: objectid
  p_authorName :: string
  p_createdAt :: nat
  p_updatedAt :: nat

text \<open>
  The collections, in insertion order, and the names of the files multer has written
  under the uploads directory.
\<close>

record store =
  users :: "user list"
  posts :: "post list"
  uploads :: "string list"

text \<open>
  The decoded token payload that \<open>authenticateToken\<close> stores in \<open>req.user\<close>:
  the two fields \<open>login\<close> signs, and the registered claims \<open>iat\<close> and \<open>exp\<close>
  (seconds) that jsonwebtoken adds for \<open>expiresIn\<close>.
\<close>

record claims =
  userId :: string
  username :: string
  iat :: nat
  expiry :: nat

text \<open>\<open>req.file\<close> as multer's disk storage leaves it.\<close>

record req_file =
  originalname :: string
  filename :: string

subsection \<open>The libraries and the environment\<close>

record env =
  JWT_SECRET :: "string option"
    \<comment> \<open>\<open>process.env.JWT_SECRET\<close>\<close>
  jwt_encode :: "claims \<Rightarrow> string \<Rightarrow> string"
    \<comment> \<open>the signed, serialised token for a payload and a key\<close>
  jwt_decode :: "string \<Rightarrow> string \<Rightarrow> claims option"
    \<comment> \<open>the payload of a token whose signature the key verifies, else \<open>None\<close>\<close>
  bcrypt_hash :: "string \<Rightarrow> nat \<Rightarrow> string"
    \<comment> \<open>\<open>bcrypt.hash(s, rounds)\<close>\<close>
  bcrypt_compare :: "string \<Rightarrow> string \<Rightarrow> bool"
    \<comment> \<open>\<open>bcrypt.compare(s, hash)\<close>\<close>
  castObjectId :: "string \<Rightarrow> objectid option"
    \<comment> \<open>Mongoose's cast of a string to ObjectId; \<open>None\<close> is a CastError\<close>
  path_extname :: "string \<Rightarrow> string"
    \<comment> \<open>\<open>path.extname\<close>\<close>

subsection \<open>Errors and responses\<close>

text \<open>
  What a handler's \<open>try\<close> block can throw: a failed cast of a query value (the value),
  a failed validation on save (the failing paths, in the order Mongoose reports them),
  a unique index violation, and bcryptjs's "Illegal arguments" for an argument that is
  not a string.
\<close>

datatype error =
  CastError string
| ValidationError "string list"
| DuplicateKey
| IllegalArguments

text \<open>
  The argument of \<open>res.json\<close>: an object literal of the source as its list of keys and
  values, or a Mongoose document, or a list of them. \<open>Err e\<close> stands for
  \<open>error.message\<close>, the library's text for the error \<open>e\<close>.
\<close>

datatype jval = S string | Obj "(string \<times> jval) list" | Err error

datatype body =
  Json "(string \<times> jval) list"
| PostDoc post
| PostDocs "post list"

datatype response = Response nat body

fun status :: "response \<Rightarrow> nat" where
  "status (Response c b) = c"

definition message :: "nat \<Rightarrow> string \<Rightarrow> response" where
  \<comment> \<open>\<open>res.status(c).json({ message: m })\<close>\<close>
  "message c m = Response c (Json [(''message'', S m)])"

definition server_error :: "error \<Rightarrow> response" where
  \<comment> \<open>the \<open>catch\<close> block of every handler\<close>
  "server_error e = Response 500 (Json [(''message'', S ''Server error''), (''error'', Err e)])"

subsection \<open>JavaScript helpers\<close>

text \<open>\<open>s.split(c)\<close> for a one-character separator: never empty, keeps empty pieces.\<close>

fun split :: "char \<Rightarrow> string \<Rightarrow> string list" where
  "split c [] = [[]]"
| "split c (x # xs) =
     (if x = c then [] # split c xs
      else (case split c xs of [] \<Rightarrow> [[x]] | w # ws \<Rightarrow> (x # w) # ws))"

text \<open>\<open>a || b\<close> on an optional string: \<open>undefined\<close> and \<open>""\<close> are falsy.\<close>

definition or_else :: "string option \<Rightarrow> string \<Rightarrow> string" where
  "or_else a b = (case a of None \<Rightarrow> b | Some s \<Rightarrow> if s = [] then b else s)"

text \<open>The decimal text of a number, as \<open>Date.now() + ext\<close> concatenates it.\<close>

fun decimal :: "nat \<Rightarrow> string" where
  "decimal n =
     (if n < 10 then [''0123456789'' ! n]
      else decimal (n div 10) @ [''0123456789'' ! (n mod 10)])"

declare decimal.simps [simp del]

subsection \<open>multer\<close>

text \<open>
  \<open>upload.single("image")\<close> with the disk storage of the source: given the original
  name of the part named \<open>image\<close> (if the request has one) it writes the file under
  the name \<open>Date.now() + path.extname(file.originalname)\<close> and sets \<open>req.file\<close>.
\<close>

definition storage_filename :: "env \<Rightarrow> nat \<Rightarrow> string \<Rightarrow> string" where
  "storage_filename e now orig = decimal now @ path_extname e orig"

definition upload_single :: "env \<Rightarrow> nat \<Rightarrow> string option \<Rightarrow> store \<Rightarrow> store \<times> req_file option" where
  "upload_single e now part st =
     (case part of
        None \<Rightarrow> (st, None)
      | Some orig \<Rightarrow>
          (let name = storage_filename e now orig
           in (st\<lparr>uploads := name # uploads st\<rparr>,
               Some \<lparr>originalname = orig, filename = name\<rparr>)))"

subsection \<open>jsonwebtoken\<close>

definition secret :: "env \<Rightarrow> string" where
  \<comment> \<open>\<open>process.env.JWT_SECRET || "your-secret-key"\<close>\<close>
  "secret e = or_else (JWT_SECRET e) ''your-secret-key''"

text \<open>
  \<open>jwt.sign(payload, key, { expiresIn })\<close> at clock \<open>now\<close> (milliseconds), with
  \<open>expiresIn\<close> in seconds: \<open>iat\<close> is the clock in whole seconds and \<open>exp\<close> is
  \<open>iat + expiresIn\<close>.
\<close>

definition jwt_sign :: "env \<Rightarrow> nat \<Rightarrow> string \<Rightarrow> string \<Rightarrow> string \<Rightarrow> nat \<Rightarrow> string" where
  "jwt_sign e now uid uname key expiresIn =
     jwt_encode e \<lparr>userId = uid, username = uname,
                   iat = now div 1000, expiry = now div 1000 + expiresIn\<rparr> key"

datatype jwt_error = JsonWebTokenError | TokenExpiredError

text \<open>
  \<open>jwt.verify(token, key, callback)\<close>: the callback gets an error when the signature
  does not verify or when the clock has reached \<open>exp\<close>, the payload otherwise.
\<close>

definition jwt_verify :: "env \<Rightarrow> nat \<Rightarrow> string \<Rightarrow> string \<Rightarrow> jwt_error + claims" where
  "jwt_verify e now token key =
     (case jwt_decode e token key of
        None \<Rightarrow> Inl JsonWebTokenError
      | Some c \<Rightarrow> if expiry c \<le> now div 1000 then Inl TokenExpiredError else Inr c)"

subsection \<open>Auth middleware\<close>

definition header_token :: "string option \<Rightarrow> string option" where
  \<comment> \<open>\<open>authHeader && authHeader.split(" ")[1]\<close>, with \<open>!token\<close> as \<open>None\<close>\<close>
  "header_token authHeader =
     (case authHeader of
        None \<Rightarrow> None
      | Some h \<Rightarrow>
          if h = [] then None
          else (case split CHR '' '' h of
                  a # t # rest \<Rightarrow> if t = [] then None else Some t
                | _ \<Rightarrow> None))"

text \<open>
  \<open>Inl r\<close>: the middleware has answered with \<open>r\<close> and \<open>next()\<close> is not called.
  \<open>Inr u\<close>: \<open>req.user = u\<close> and \<open>next()\<close> is called.
\<close>

definition authenticateToken :: "env \<Rightarrow> nat \<Rightarrow> string option \<Rightarrow> response + claims" where
  "authenticateToken e now authHeader =
     (case header_token authHeader of
        None \<Rightarrow> Inl (message 401 ''Access token required'')
      | Some token \<Rightarrow>
          (case jwt_verify e now token (secret e) of
             Inl err \<Rightarrow> Inl (message 403 ''Invalid token'')
           | Inr u \<Rightarrow> Inr u))"

text \<open>
  A route \<open>app.METHOD(path, authenticateToken, handler)\<close>: the handler runs on
  \<open>req.user\<close> only when the middleware calls \<open>next()\<close>.
\<close>

definition protected ::
  "env \<Rightarrow> nat \<Rightarrow> string option \<Rightarrow> (claims \<Rightarrow> store \<Rightarrow> store \<times> response) \<Rightarrow> store \<Rightarrow> store \<times> response" where
  "protected e now authHeader handler st =
     (case authenticateToken e now authHeader of
        Inl r \<Rightarrow> (st, r)
      | Inr u \<Rightarrow> handler u st)"

subsection \<open>Mongoose: validation, queries, save\<close>

text \<open>
  The validator of \<open>required: true\<close> on a String path: the value must be present and
  not the empty string. The result is the list of failing paths.
\<close>

definition required :: "string \<Rightarrow> string option \<Rightarrow> string list" where
  "required path v = (case v of None \<Rightarrow> [path] | Some s \<Rightarrow> if s = [] then [path] else [])"

definition user_invalid_paths :: "user \<Rightarrow> string list" where
  "user_invalid_paths u =
     required ''username'' (Some (u_username u)) @
     required ''email'' (Some (u_email u)) @
     required ''password'' (Some (u_password u))"

definition post_invalid_paths :: "post \<Rightarrow> string list" where
  "post_invalid_paths p =
     required ''title'' (Some (p_title p)) @
     required ''content'' (Some (p_content p)) @
     required ''authorName'' (Some (p_authorName p))"

text \<open>
  \<open>user.save()\<close> of a new document: validation, then the insert, which the unique
  indexes on \<open>username\<close> and \<open>email\<close> can refuse; \<open>timestamps\<close> sets both dates.
\<close>

definition save_new_user :: "nat \<Rightarrow> user \<Rightarrow> store \<Rightarrow> error + store" where
  "save_new_user now u st =
     (if user_invalid_paths u \<noteq> [] then Inl (ValidationError (user_invalid_paths u))
      else if list_ex (\<lambda>x. u_username x = u_username u \<or> u_email x = u_email u) (users st)
      then Inl DuplicateKey
      else Inr (st\<lparr>users := users st @ [u\<lparr>u_createdAt := now, u_updatedAt := now\<rparr>]\<rparr>))"

text \<open>
  \<open>new Post({ title, content, image, author, authorName })\<close> followed by the
  validation that \<open>save()\<close> runs: absent or empty required strings fail, and so does an
  \<open>author\<close> that does not cast to ObjectId. The failed cast is recorded when the
  document is built, so it comes first among the failing paths; the required paths
  follow in schema order.
\<close>

definition new_post ::
  "env \<Rightarrow> objectid \<Rightarrow> string option \<Rightarrow> string option \<Rightarrow> string option \<Rightarrow> string \<Rightarrow> string
     \<Rightarrow> error + post" where
  "new_post e oid title content img auth authName =
     (let bad = (case castObjectId e auth of None \<Rightarrow> [''author''] | Some a \<Rightarrow> []) @
                required ''title'' title @ required ''content'' content @
                required ''authorName'' (Some authName)
      in case (title, content, castObjectId e auth) of
           (Some t, Some c, Some a) \<Rightarrow>
             if bad = [] then
               Inr \<lparr>p_id = oid, p_title = t, p_content = c, p_image = img, p_author = a,
                    p_authorName = authName, p_createdAt = 0, p_updatedAt = 0\<rparr>
             else Inl (ValidationError bad)
         | _ \<Rightarrow> Inl (ValidationError bad))"

definition insert_post :: "nat \<Rightarrow> post \<Rightarrow> store \<Rightarrow> store \<times> post" where
  \<comment> \<open>the insert of a validated new document; \<open>timestamps\<close> sets both dates\<close>
  "insert_post now p st =
     (let saved = p\<lparr>p_createdAt := now, p_updatedAt := now\<rparr>
      in (st\<lparr>posts := posts st @ [saved]\<rparr>, saved))"

definition findOne_email_or_username :: "string \<Rightarrow> string \<Rightarrow> user list \<Rightarrow> user option" where
  \<comment> \<open>\<open>User.findOne({ $or: [{ email }, { username }] })\<close>\<close>
  "findOne_email_or_username mail uname us = find (\<lambda>x. u_email x = mail \<or> u_username x = uname) us"

definition findOne_email :: "string \<Rightarrow> user list \<Rightarrow> user option" where
  \<comment> \<open>\<open>User.findOne({ email })\<close>\<close>
  "findOne_email mail us = find (\<lambda>x. u_email x = mail) us"

definition findById :: "objectid \<Rightarrow> post list \<Rightarrow> post option" where
  "findById oid ps = find (\<lambda>p. p_id p = oid) ps"

fun replaceById :: "post \<Rightarrow> post list \<Rightarrow> post list" where
  "replaceById q [] = []"
| "replaceById q (p # ps) = (if p_id p = p_id q then q # ps else p # replaceById q ps)"

fun deleteById :: "objectid \<Rightarrow> post list \<Rightarrow> post list" where
  "deleteById oid [] = []"
| "deleteById oid (p # ps) = (if p_id p = oid then ps else p # deleteById oid ps)"

text \<open>
  \<open>post.save()\<close> of a document loaded as \<open>old\<close> and assigned to give \<open>new\<close>: every
  loaded path is validated; an unmodified document is not written; a modified one is
  written under its \<open>_id\<close> with \<open>updatedAt\<close> set to the clock.
\<close>

definition save_post :: "nat \<Rightarrow> post \<Rightarrow> post \<Rightarrow> store \<Rightarrow> error + store \<times> post" where
  "save_post now old new st =
     (if post_invalid_paths new \<noteq> [] then Inl (ValidationError (post_invalid_paths new))
      else if new = old then Inr (st, new)
      else (let saved = new\<lparr>p_updatedAt := now\<rparr>
            in Inr (st\<lparr>posts := replaceById saved (posts st)\<rparr>, saved)))"

definition sort_createdAt_desc :: "post list \<Rightarrow> post list" where
  \<comment> \<open>\<open>.sort({ createdAt: -1 })\<close>\<close>
  "sort_createdAt_desc ps = rev (sort_key p_createdAt ps)"

subsection \<open>Route handlers\<close>

text \<open>GET /api/my-posts, after \<open>authenticateToken\<close>. The filter value is cast to ObjectId.\<close>

definition my_posts :: "env \<Rightarrow> claims \<Rightarrow> store \<Rightarrow> store \<times> response" where
  "my_posts e u st =
     (case castObjectId e (userId u) of
        None \<Rightarrow> (st, server_error (CastError (userId u)))
      | Some a \<Rightarrow>
          (st, Response 200 (PostDocs (sort_createdAt_desc (filter (\<lambda>p. p_author p = a) (posts st))))))"

text \<open>
  POST /api/register. \<open>oid\<close> is the \<open>_id\<close> that \<open>new User\<close> generates. The lookup comes
  first; \<open>bcrypt.hash(password, 10)\<close> throws when \<open>password\<close> is not a string, and the
  \<open>catch\<close> block answers.
\<close>

definition register ::
  "env \<Rightarrow> nat \<Rightarrow> objectid \<Rightarrow> string \<Rightarrow> string \<Rightarrow> string option \<Rightarrow> store \<Rightarrow> store \<times> response" where
  "register e now oid uname mail pw st =
     (case findOne_email_or_username mail uname (users st) of
        Some existingUser \<Rightarrow> (st, message 400 ''User already exists'')
      | None \<Rightarrow>
          (case pw of
             None \<Rightarrow> (st, server_error IllegalArguments)
           | Some password \<Rightarrow>
               (let hashedPassword = bcrypt_hash e password 10;
                    u = \<lparr>u_id = oid, u_username = uname, u_email = mail,
                         u_password = hashedPassword, u_createdAt = 0, u_updatedAt = 0\<rparr>
                in case save_new_user now u st of
                     Inl err \<Rightarrow> (st, server_error err)
                   | Inr st' \<Rightarrow> (st', message 201 ''User created successfully''))))"

text \<open>
  POST /api/login. In \<open>!user || !(await bcrypt.compare(password, user.password))\<close> the
  comparison runs only when a user was found; it throws when \<open>password\<close> is not a
  string, and the \<open>catch\<close> block answers.
\<close>

definition login :: "env \<Rightarrow> nat \<Rightarrow> string \<Rightarrow> string option \<Rightarrow> store \<Rightarrow> store \<times> response" where
  "login e now mail pw st =
     (case findOne_email mail (users st) of
        None \<Rightarrow> (st, message 400 ''Invalid credentials'')
      | Some u \<Rightarrow>
          (case pw of
             None \<Rightarrow> (st, server_error IllegalArguments)
           | Some password \<Rightarrow>
               if \<not> bcrypt_compare e password (u_password u)
               then (st, message 400 ''Invalid credentials'')
               else
                 (let token = jwt_sign e now (u_id u) (u_username u) (secret e) (24 * 60 * 60)
                  in (st, Response 200 (Json
                       [(''token'', S token),
                        (''user'', Obj [(''id'', S (u_id u)), (''username'', S (u_username u)),
                                        (''email'', S (u_email u))])])))))"

text \<open>GET /api/posts.\<close>

definition get_posts :: "store \<Rightarrow> store \<times> response" where
  "get_posts st = (st, Response 200 (PostDocs (sort_createdAt_desc (posts st))))"

text \<open>GET /api/posts/:id.\<close>

definition get_post :: "env \<Rightarrow> string \<Rightarrow> store \<Rightarrow> store \<times> response" where
  "get_post e ident st =
     (case castObjectId e ident of
        None \<Rightarrow> (st, server_error (CastError ident))
      | Some oid \<Rightarrow>
          (case findById oid (posts st) of
             None \<Rightarrow> (st, message 404 ''Post not found'')
           | Some p \<Rightarrow> (st, Response 200 (PostDoc p))))"

text \<open>
  POST /api/posts, after \<open>authenticateToken\<close> and \<open>upload.single("image")\<close>. \<open>oid\<close> is
  the \<open>_id\<close> that \<open>new Post\<close> generates.
\<close>

definition create_post ::
  "env \<Rightarrow> nat \<Rightarrow> objectid \<Rightarrow> req_file option \<Rightarrow> string option \<Rightarrow> string option \<Rightarrow> claims
     \<Rightarrow> store \<Rightarrow> store \<times> response" where
  "create_post e now oid reqfile title content u st =
     (let imagePath = (case reqfile of None \<Rightarrow> None | Some f \<Rightarrow> Some (''/uploads/'' @ filename f))
      in case new_post e oid title content imagePath (userId u) (username u) of
           Inl err \<Rightarrow> (st, server_error err)
         | Inr p \<Rightarrow>
             (case insert_post now p st of (st', saved) \<Rightarrow> (st', Response 201 (PostDoc saved))))"

text \<open>PUT /api/posts/:id, after \<open>authenticateToken\<close> and \<open>upload.single("image")\<close>.\<close>

definition update_post ::
  "env \<Rightarrow> nat \<Rightarrow> string \<Rightarrow> req_file option \<Rightarrow> string option \<Rightarrow> string option \<Rightarrow> claims
     \<Rightarrow> store \<Rightarrow> store \<times> response" where
  "update_post e now ident reqfile title content u st =
     (case castObjectId e ident of
        None \<Rightarrow> (st, server_error (CastError ident))
      | Some oid \<Rightarrow>
          (case findById oid (posts st) of
             None \<Rightarrow> (st, message 404 ''Post not found'')
           | Some p \<Rightarrow>
               if p_author p \<noteq> userId u then (st, message 403 ''Not authorized'')
               else
                 (let p1 = p\<lparr>p_title := or_else title (p_title p)\<rparr>;
                      p2 = p1\<lparr>p_content := or_else content (p_content p1)\<rparr>;
                      p3 = (case reqfile of
                              None \<Rightarrow> p2
                            | Some f \<Rightarrow> p2\<lparr>p_image := Some (''/uploads/'' @ filename f)\<rparr>)
                  in case save_post now p p3 st of
                       Inl err \<Rightarrow> (st, server_error err)
                     | Inr (st', saved) \<Rightarrow> (st', Response 200 (PostDoc saved)))))"

text \<open>DELETE /api/posts/:id, after \<open>authenticateToken\<close>.\<close>

definition delete_post :: "env \<Rightarrow> string \<Rightarrow> claims \<Rightarrow> store \<Rightarrow> store \<times> response" where
  "delete_post e ident u st =
     (case castObjectId e ident of
        None \<Rightarrow> (st, server_error (CastError ident))
      | Some oid \<Rightarrow>
          (case findById oid (posts st) of
             None \<Rightarrow> (st, message 404 ''Post not found'')
           | Some p \<Rightarrow>
               if p_author p \<noteq> userId u then (st, message 403 ''Not authorized'')
               else (st\<lparr>posts := deleteById oid (posts st)\<rparr>,
                     message 200 ''Post deleted successfully'')))"

subsection \<open>Routes\<close>

text \<open>
  The middleware chains of the four protected routes. Each clock reading has its own
  argument: \<open>t_auth\<close> in \<open>jwt.verify\<close>, \<open>t_up\<close> in multer's \<open>filename\<close>, \<open>t_save\<close> in
  \<open>save()\<close>. \<open>part\<close> is the original name of the multipart file part \<open>image\<close>.
\<close>

definition route_my_posts :: "env \<Rightarrow> nat \<Rightarrow> string option \<Rightarrow> store \<Rightarrow> store \<times> response" where
  "route_my_posts e t_auth authHeader st = protected e t_auth authHeader (my_posts e) st"

definition upload_then_create ::
  "env \<Rightarrow> nat \<Rightarrow> nat \<Rightarrow> objectid \<Rightarrow> string option \<Rightarrow> string option \<Rightarrow> string option \<Rightarrow> claims
     \<Rightarrow> store \<Rightarrow> store \<times> response" where
  "upload_then_create e t_up t_save oid part title content u st =
     (case upload_single e t_up part st of
        (st1, reqfile) \<Rightarrow> create_post e t_save oid reqfile title content u st1)"

definition route_create ::
  "env \<Rightarrow> nat \<Rightarrow> nat \<Rightarrow> nat \<Rightarrow> objectid \<Rightarrow> string option \<Rightarrow> string option \<Rightarrow> string option
     \<Rightarrow> string option \<Rightarrow> store \<Rightarrow> store \<times> response" where
  "route_create e t_auth t_up t_save oid authHeader part title content st =
     protected e t_auth authHeader (upload_then_create e t_up t_save oid part title content) st"

definition upload_then_update ::
  "env \<Rightarrow> nat \<Rightarrow> nat \<Rightarrow> string \<Rightarrow> string option \<Rightarrow> string option \<Rightarrow> string option \<Rightarrow> claims
     \<Rightarrow> store \<Rightarrow> store \<times> response" where
  "upload_then_update e t_up t_save ident part title content u st =
     (case upload_single e t_up part st of
        (st1, reqfile) \<Rightarrow> update_post e t_save ident reqfile title content u st1)"

definition route_update ::
  "env \<Rightarrow> nat \<Rightarrow> nat \<Rightarrow> nat \<Rightarrow> string \<Rightarrow> string option \<Rightarrow> string option \<Rightarrow> string option
     \<Rightarrow> string option \<Rightarrow> store \<Rightarrow> store \<times> response" where
  "route_update e t_auth t_up t_save ident authHeader part title content st =
     protected e t_auth authHeader (upload_then_update e t_up t_save ident part title content) st"

definition route_delete :: "env \<Rightarrow> nat \<Rightarrow> string \<Rightarrow> string option \<Rightarrow> store \<Rightarrow> store \<times> response" where
  "route_delete e t_auth ident authHeader st = protected e t_auth authHeader (delete_post e ident) st"

subsection \<open>A concrete instance for evaluation\<close>

text \<open>
  One choice of the library functions, small enough to evaluate by hand: ObjectIds are
  the strings of 24 lower-case hexadecimal digits, a digest is the password behind a
  marker, one token string verifies under the default key, and the extension is the
  name from its last dot on (as \<open>path.extname\<close> gives for a name such as
  \<open>cat.png\<close>). The examples below run the handlers on it.
\<close>

definition alice_id :: objectid where
  "alice_id = ''aaaaaaaaaaaaaaaaaaaaaaaa''"

definition bob_id :: objectid where
  "bob_id = ''bbbbbbbbbbbbbbbbbbbbbbbb''"

definition post1_id :: objectid where
  "post1_id = ''111111111111111111111111''"

definition alice_claims :: claims where
  "alice_claims = \<lparr>userId = alice_id, username = ''alice'', iat = 0, expiry = 86400\<rparr>"

definition bob_claims :: claims where
  "bob_claims = \<lparr>userId = bob_id, username = ''bob'', iat = 0, expiry = 86400\<rparr>"

definition test_env :: env where
  "test_env =
     \<lparr>JWT_SECRET = None,
      jwt_encode = (\<lambda>c k. k @ ''.'' @ userId c @ ''.'' @ username c),
      jwt_decode = (\<lambda>t k. if t = ''alice-token'' \<and> k = ''your-secret-key''
                            then Some alice_claims else None),
      bcrypt_hash = (\<lambda>s rounds. ''$2a$'' @ s),
      bcrypt_compare = (\<lambda>s h. h = ''$2a$'' @ s),
      castObjectId = (\<lambda>s. if length s = 24 \<and> list_all (\<lambda>c. c \<in> set ''0123456789abcdef'') s
                            then Some s else None),
      path_extname = (\<lambda>s. if CHR ''.'' \<in> set s
                            then CHR ''.'' # rev (takeWhile (\<lambda>c. c \<noteq> CHR ''.'') (rev s))
                            else [])\<rparr>"

definition empty_store :: store where
  "empty_store = \<lparr>users = [], posts = [], uploads = []\<rparr>"

definition alice :: user where
  "alice = \<lparr>u_id = alice_id, u_username = ''alice'', u_email = ''a@x.com'',
            u_password = ''$2a$pw1'', u_createdAt = 5, u_updatedAt = 5\<rparr>"

definition post1 :: post where
  "post1 = \<lparr>p_id = post1_id, p_title = ''Hi'', p_content = ''World'', p_image = None,
            p_author = alice_id, p_authorName = ''alice'', p_createdAt = 10, p_updatedAt = 10\<rparr>"

definition post2 :: post where
  "post2 = \<lparr>p_id = ''222222222222222222222222'', p_title = ''Yo'', p_content = ''There'',
            p_image = Some ''/uploads/20.png'', p_author = bob_id, p_authorName = ''bob'',
            p_createdAt = 20, p_updatedAt = 20\<rparr>"

definition store1 :: store where
  "store1 = \<lparr>users = [alice], posts = [post1, post2], uploads = [''20.png'']\<rparr>"

section \<open>Properties\<close>

subsection \<open>Listing\<close>

lemma sort_createdAt_desc_mset: "mset (sort_createdAt_desc ps) = mset ps"
  by (simp add: sort_createdAt_desc_def)

lemma sort_createdAt_desc_sorted:
  "sorted_wrt (\<lambda>x y. p_createdAt y \<le> p_createdAt x) (sort_createdAt_desc ps)"
proof -
  have "sorted (map p_createdAt (sort_key p_createdAt ps))"
    by (rule sorted_sort_key)
  then have "sorted_wrt (\<lambda>a b. p_createdAt a \<le> p_createdAt b) (sort_key p_createdAt ps)"
    by (simp add: sorted_map)
  then show ?thesis
    by (simp add: sort_createdAt_desc_def sorted_wrt_rev)
qed

text \<open>
  Claim C8. In every state of the store, GET /api/posts answers 200 with all the posts
  (the same posts with the same multiplicities, and the store is not changed), and in
  the returned list every post has a \<open>createdAt\<close> greater than or equal to that of
  every post after it, so in particular of the next one.
\<close>

theorem get_posts_newest_first:
  "\<exists>r. get_posts st = (st, Response 200 (PostDocs r)) \<and>
       mset r = mset (posts st) \<and>
       sorted_wrt (\<lambda>x y. p_createdAt y \<le> p_createdAt x) r"
  by (simp add: get_posts_def sort_createdAt_desc_mset sort_createdAt_desc_sorted)

theorem get_posts_newest_first_witness:
  "get_posts store1 = (store1, Response 200 (PostDocs [post2, post1])) \<and>
   p_createdAt post1 \<le> p_createdAt post2"
  using get_posts_newest_first [of store1]
  by (simp add: get_posts_def store1_def sort_createdAt_desc_def post1_def post2_def)

text \<open>
  Claim C9. For an identity whose \<open>userId\<close> is an ObjectId (it casts to \<open>a\<close>; for a
  token that \<open>login\<close> issued, \<open>a\<close> is the user's \<open>_id\<close>), GET /api/my-posts answers 200
  with exactly the posts whose author is \<open>a\<close>: none of another author, none of these
  omitted, each as often as it is stored, newest first.
\<close>

theorem my_posts_exactly_own:
  assumes "castObjectId e (userId u) = Some a"
  shows "\<exists>r. my_posts e u st = (st, Response 200 (PostDocs r)) \<and>
       mset r = mset (filter (\<lambda>p. p_author p = a) (posts st)) \<and>
       set r = {p \<in> set (posts st). p_author p = a} \<and>
       sorted_wrt (\<lambda>x y. p_createdAt y \<le> p_createdAt x) r"
proof -
  let ?r = "sort_createdAt_desc (filter (\<lambda>p. p_author p = a) (posts st))"
  have "my_posts e u st = (st, Response 200 (PostDocs ?r))"
    using assms by (simp add: my_posts_def)
  moreover have m: "mset ?r = mset (filter (\<lambda>p. p_author p = a) (posts st))"
    by (rule sort_createdAt_desc_mset)
  moreover have "set ?r = {p \<in> set (posts st). p_author p = a}"
    using m by (metis set_filter set_mset_mset)
  moreover have "sorted_wrt (\<lambda>x y. p_createdAt y \<le> p_createdAt x) ?r"
    by (rule sort_createdAt_desc_sorted)
  ultimately show ?thesis by blast
qed

theorem my_posts_exactly_own_witness:
  "castObjectId test_env (userId alice_claims) = Some alice_id \<and>
   my_posts test_env alice_claims store1 = (store1, Response 200 (PostDocs [post1]))"
proof -
  have c: "castObjectId test_env (userId alice_claims) = Some alice_id"
    by (simp add: test_env_def alice_claims_def alice_id_def)
  have "my_posts test_env alice_claims store1 = (store1, Response 200 (PostDocs [post1]))"
    using my_posts_exactly_own [OF c, of store1]
    apply (simp add: my_posts_def c)
    by (simp add: store1_def sort_createdAt_desc_def post1_def post2_def alice_id_def bob_id_def)
  with c show ?thesis by simp
qed

subsection \<open>Login failures\<close>

text \<open>
  With a string password the two failures of \<open>login\<close> are one response: an email that
  matches no user, and a password that \<open>bcrypt.compare\<close> rejects, both get 400
  \<open>{ message: "Invalid credentials" }\<close>, whatever the stores, clocks and passwords.
\<close>

lemma login_string_password_failures:
  assumes "findOne_email ma (users sa) = None"
    and "findOne_email mb (users sb) = Some x"
    and "\<not> bcrypt_compare e pb (u_password x)"
  shows "login e ta ma pa sa = (sa, Response 400 (Json [(''message'', S ''Invalid credentials'')])) \<and>
         login e tb mb (Some pb) sb =
           (sb, Response 400 (Json [(''message'', S ''Invalid credentials'')])) \<and>
         snd (login e ta ma pa sa) = snd (login e tb mb (Some pb) sb)"
  using assms by (simp add: login_def message_def)

text \<open>
  Claim C2 says that the response of a failed login does not tell whether the email
  belongs to a user. The code breaks it when the body has no string \<open>password\<close>: for an
  email that matches no user the answer is 400 \<open>{ message: "Invalid credentials" }\<close>
  (\<open>!user\<close> decides, the comparison is not run), for an email that matches a user
  \<open>bcrypt.compare\<close> throws and the answer is 500 \<open>{ message: "Server error", error }\<close>.
  The two responses differ, for any two stores and clocks.
\<close>

theorem login_absent_password_tells_email:
  assumes "findOne_email ma (users sa) = None"
    and "findOne_email mb (users sb) = Some x"
  shows "login e ta ma None sa = (sa, Response 400 (Json [(''message'', S ''Invalid credentials'')])) \<and>
         login e tb mb None sb =
           (sb, Response 500 (Json [(''message'', S ''Server error''),
                                    (''error'', Err IllegalArguments)])) \<and>
         snd (login e ta ma None sa) \<noteq> snd (login e tb mb None sb)"
  using assms by (simp add: login_def message_def server_error_def)

theorem login_absent_password_tells_email_witness:
  "findOne_email ''nobody@x.com'' (users store1) = None \<and>
   findOne_email ''a@x.com'' (users store1) = Some alice \<and>
   login test_env 7 ''nobody@x.com'' None store1 =
     (store1, Response 400 (Json [(''message'', S ''Invalid credentials'')])) \<and>
   login test_env 7 ''a@x.com'' None store1 =
     (store1, Response 500 (Json [(''message'', S ''Server error''),
                                  (''error'', Err IllegalArguments)])) \<and>
   status (snd (login test_env 7 ''nobody@x.com'' None store1)) = 400 \<and>
   status (snd (login test_env 7 ''a@x.com'' None store1)) = 500"
proof -
  have a: "findOne_email ''nobody@x.com'' (users store1) = None"
    by (simp add: findOne_email_def store1_def alice_def)
  have b: "findOne_email ''a@x.com'' (users store1) = Some alice"
    by (simp add: findOne_email_def store1_def alice_def)
  show ?thesis
    using login_absent_password_tells_email [OF a b, where e = test_env and ta = 7 and tb = 7] a b
    by simp
qed

subsection \<open>The auth middleware\<close>

lemma split_no_separator: "c \<notin> set s \<Longrightarrow> split c s = [s]"
  by (induction s) auto

lemma split_at_separator: "c \<notin> set a \<Longrightarrow> split c (a @ c # s) = a # split c s"
  by (induction a) (auto split: list.splits)

lemma header_token_Bearer:
  assumes "CHR '' '' \<notin> set t"
  shows "header_token (Some (''Bearer '' @ t)) = (if t = [] then None else Some t)"
proof -
  have "split CHR '' '' (''Bearer'' @ CHR '' '' # t) = ''Bearer'' # split CHR '' '' t"
    by (rule split_at_separator) simp
  then have "split CHR '' '' (''Bearer '' @ t) = [''Bearer'', t]"
    using assms by (simp add: split_no_separator)
  then show ?thesis
    by (simp add: header_token_def)
qed

lemma header_token_absent: "header_token None = None" "header_token (Some ''Bearer'') = None"
  by (simp_all add: header_token_def)

text \<open>
  Claim C4. On every protected route: when the Authorization header yields no token
  (no header, or no non-empty second piece after a space), the answer is 401
  \<open>{ message: "Access token required" }\<close>, the store is unchanged and the result does
  not depend on the handler, which is not run; when the token does not verify under
  the key, or verifies but the clock has reached its \<open>exp\<close>, the answer is 403
  \<open>{ message: "Invalid token" }\<close>, again without the handler; when it verifies and has
  not expired, \<open>req.user\<close> is the decoded payload (user id and username) and the result
  is the handler's on that identity.
\<close>

theorem authenticateToken_gate:
  "(header_token h = None \<longrightarrow>
      protected e now h handler st =
        (st, Response 401 (Json [(''message'', S ''Access token required'')]))) \<and>
   (header_token h = Some t \<and> jwt_decode e t (secret e) = None \<longrightarrow>
      protected e now h handler st = (st, Response 403 (Json [(''message'', S ''Invalid token'')]))) \<and>
   (header_token h = Some t \<and> jwt_decode e t (secret e) = Some c \<and> expiry c \<le> now div 1000 \<longrightarrow>
      protected e now h handler st = (st, Response 403 (Json [(''message'', S ''Invalid token'')]))) \<and>
   (header_token h = Some t \<and> jwt_decode e t (secret e) = Some c \<and> now div 1000 < expiry c \<longrightarrow>
      authenticateToken e now h = Inr c \<and> protected e now h handler st = handler c st)"
  by (simp add: protected_def authenticateToken_def jwt_verify_def message_def)

theorem authenticateToken_gate_witness:
  "header_token None = None \<and>
   protected test_env 1000 None (my_posts test_env) store1 =
     (store1, Response 401 (Json [(''message'', S ''Access token required'')])) \<and>
   header_token (Some ''Bearer forged'') = Some ''forged'' \<and>
   jwt_decode test_env ''forged'' (secret test_env) = None \<and>
   protected test_env 1000 (Some ''Bearer forged'') (my_posts test_env) store1 =
     (store1, Response 403 (Json [(''message'', S ''Invalid token'')])) \<and>
   header_token (Some ''Bearer alice-token'') = Some ''alice-token'' \<and>
   jwt_decode test_env ''alice-token'' (secret test_env) = Some alice_claims \<and>
   expiry alice_claims \<le> 86400000 div 1000 \<and>
   protected test_env 86400000 (Some ''Bearer alice-token'') (my_posts test_env) store1 =
     (store1, Response 403 (Json [(''message'', S ''Invalid token'')])) \<and>
   1000 div 1000 < expiry alice_claims \<and>
   protected test_env 1000 (Some ''Bearer alice-token'') (my_posts test_env) store1 =
     my_posts test_env alice_claims store1"
proof -
  have a: "header_token None = None"
    by (simp add: header_token_def)
  have b: "header_token (Some ''Bearer forged'') = Some ''forged''"
    by (simp add: header_token_def)
  have c: "jwt_decode test_env ''forged'' (secret test_env) = None"
    by (simp add: test_env_def)
  have d: "header_token (Some ''Bearer alice-token'') = Some ''alice-token''"
    by (simp add: header_token_def)
  have f: "jwt_decode test_env ''alice-token'' (secret test_env) = Some alice_claims"
    by (simp add: test_env_def secret_def or_else_def)
  have g: "expiry alice_claims \<le> 86400000 div 1000" "1000 div 1000 < expiry alice_claims"
    by (simp_all add: alice_claims_def)
  show ?thesis
    using authenticateToken_gate [where h = None and e = test_env and now = 1000
         and handler = "my_posts test_env" and st = store1]
      authenticateToken_gate [where h = "Some ''Bearer forged''" and t = "''forged''" and e = test_env
         and now = 1000 and handler = "my_posts test_env" and st = store1]
      authenticateToken_gate [where h = "Some ''Bearer alice-token''" and t = "''alice-token''"
         and e = test_env and c = alice_claims and now = 86400000
         and handler = "my_posts test_env" and st = store1]
      authenticateToken_gate [where h = "Some ''Bearer alice-token''" and t = "''alice-token''"
         and e = test_env and c = alice_claims and now = 1000
         and handler = "my_posts test_env" and st = store1]
      a b c d f g
    by simp
qed

subsection \<open>Successful login\<close>

text \<open>
  Claim C5. Every login answered with 200 found a user \<open>x\<close> by the email and had a
  string password accepted; the token is the encoding, under the configured key, of the
  payload with \<open>userId\<close> the user's \<open>_id\<close>, \<open>username\<close> the user's name, \<open>iat\<close> the clock
  in seconds and \<open>exp\<close> 86400 seconds (24 hours) later; the body is the object with the
  keys \<open>token\<close> and \<open>user\<close>, and \<open>user\<close> has the keys \<open>id\<close>, \<open>username\<close>, \<open>email\<close> and no
  other, so the stored digest is not part of it. The store is unchanged.
\<close>

theorem login_success_payload:
  assumes "status (snd (login e now mail pw st)) = 200"
  shows "\<exists>x password. findOne_email mail (users st) = Some x \<and> pw = Some password \<and>
     bcrypt_compare e password (u_password x) \<and>
     login e now mail pw st =
       (st, Response 200 (Json
          [(''token'', S (jwt_encode e \<lparr>userId = u_id x, username = u_username x,
                                        iat = now div 1000, expiry = now div 1000 + 86400\<rparr> (secret e))),
           (''user'', Obj [(''id'', S (u_id x)), (''username'', S (u_username x)),
                           (''email'', S (u_email x))])]))"
  using assms
  by (auto simp: login_def message_def server_error_def jwt_sign_def
      split: option.splits if_splits)

theorem login_success_payload_witness:
  "status (snd (login test_env 3000 ''a@x.com'' (Some ''pw1'') store1)) = 200 \<and>
   login test_env 3000 ''a@x.com'' (Some ''pw1'') store1 =
     (store1, Response 200 (Json
        [(''token'', S (jwt_encode test_env \<lparr>userId = alice_id, username = ''alice'',
                                             iat = 3, expiry = 86403\<rparr> ''your-secret-key'')),
         (''user'', Obj [(''id'', S alice_id), (''username'', S ''alice''), (''email'', S ''a@x.com'')])]))"
proof -
  have f: "findOne_email ''a@x.com'' (users store1) = Some alice"
    by (simp add: findOne_email_def store1_def alice_def)
  have s: "status (snd (login test_env 3000 ''a@x.com'' (Some ''pw1'') store1)) = 200"
    by (simp add: login_def f) (simp add: test_env_def alice_def)
  have k: "secret test_env = ''your-secret-key''"
    by (simp add: secret_def or_else_def test_env_def)
  from login_success_payload [OF s] f k s show ?thesis
    by (simp add: alice_def)
qed

subsection \<open>Registration\<close>

lemma findOne_collision:
  "(findOne_email_or_username mail uname us = None) =
     (\<not> list_ex (\<lambda>x. u_email x = mail \<or> u_username x = uname) us)"
  by (auto simp: findOne_email_or_username_def find_None_iff list_ex_iff)

text \<open>
  Claim C3, as the code has it. When the store holds a user with the same email or the
  same username, \<open>register\<close> answers 400 \<open>{ message: "User already exists" }\<close> and the
  store is unchanged, whatever the password field is. When neither collides, the
  username and the email are not empty (the schema's \<open>required\<close> validators), the
  password is a string and its digest \<open>bcrypt.hash(password, 10)\<close> is not empty (a
  bcrypt digest has 60 characters), it answers 201 and the store gains one user whose
  \<open>password\<close> is that digest, not the submitted password.
\<close>

theorem register_duplicate_or_created:
  "(list_ex (\<lambda>x. u_email x = mail \<or> u_username x = uname) (users st) \<longrightarrow>
      register e now oid uname mail pw st =
        (st, Response 400 (Json [(''message'', S ''User already exists'')]))) \<and>
   (\<not> list_ex (\<lambda>x. u_email x = mail \<or> u_username x = uname) (users st) \<and>
    uname \<noteq> [] \<and> mail \<noteq> [] \<and> pw = Some password \<and> bcrypt_hash e password 10 \<noteq> [] \<longrightarrow>
      register e now oid uname mail pw st =
        (st\<lparr>users := users st @
               [\<lparr>u_id = oid, u_username = uname, u_email = mail,
                 u_password = bcrypt_hash e password 10, u_createdAt = now, u_updatedAt = now\<rparr>]\<rparr>,
         Response 201 (Json [(''message'', S ''User created successfully'')])))"
proof (intro conjI impI)
  assume "list_ex (\<lambda>x. u_email x = mail \<or> u_username x = uname) (users st)"
  then obtain x where "findOne_email_or_username mail uname (users st) = Some x"
    using findOne_collision [of mail uname "users st"] by auto
  then show "register e now oid uname mail pw st =
        (st, Response 400 (Json [(''message'', S ''User already exists'')]))"
    by (simp add: register_def message_def)
next
  assume h: "\<not> list_ex (\<lambda>x. u_email x = mail \<or> u_username x = uname) (users st) \<and>
    uname \<noteq> [] \<and> mail \<noteq> [] \<and> pw = Some password \<and> bcrypt_hash e password 10 \<noteq> []"
  then have n: "findOne_email_or_username mail uname (users st) = None"
    by (simp add: findOne_collision)
  have d: "\<not> list_ex (\<lambda>x. u_username x = uname \<or> u_email x = mail) (users st)"
    using h by (auto simp: list_ex_iff)
  show "register e now oid uname mail pw st =
        (st\<lparr>users := users st @
               [\<lparr>u_id = oid, u_username = uname, u_email = mail,
                 u_password = bcrypt_hash e password 10, u_createdAt = now, u_updatedAt = now\<rparr>]\<rparr>,
         Response 201 (Json [(''message'', S ''User created successfully'')]))"
    using h n d
    by (simp add: register_def save_new_user_def user_invalid_paths_def required_def message_def)
qed

theorem register_duplicate_or_created_witness:
  "list_ex (\<lambda>x. u_email x = ''a@x.com'' \<or> u_username x = ''carol'') (users store1) \<and>
   register test_env 40 bob_id ''carol'' ''a@x.com'' (Some ''pw3'') store1 =
     (store1, Response 400 (Json [(''message'', S ''User already exists'')])) \<and>
   \<not> list_ex (\<lambda>x. u_email x = ''b@x.com'' \<or> u_username x = ''bob'') (users store1) \<and>
   bcrypt_hash test_env ''pw2'' 10 = ''$2a$pw2'' \<and>
   register test_env 40 bob_id ''bob'' ''b@x.com'' (Some ''pw2'') store1 =
     (store1\<lparr>users := [alice, \<lparr>u_id = bob_id, u_username = ''bob'', u_email = ''b@x.com'',
                u_password = ''$2a$pw2'', u_createdAt = 40, u_updatedAt = 40\<rparr>]\<rparr>,
      Response 201 (Json [(''message'', S ''User created successfully'')]))"
proof -
  have a: "list_ex (\<lambda>x. u_email x = ''a@x.com'' \<or> u_username x = ''carol'') (users store1)"
    by (simp add: store1_def alice_def)
  have b: "\<not> list_ex (\<lambda>x. u_email x = ''b@x.com'' \<or> u_username x = ''bob'') (users store1)"
    by (simp add: store1_def alice_def)
  have c: "bcrypt_hash test_env ''pw2'' 10 = ''$2a$pw2''"
    by (simp add: test_env_def)
  have d: "users store1 = [alice]"
    by (simp add: store1_def)
  have r: "register test_env 40 bob_id ''carol'' ''a@x.com'' (Some ''pw3'') store1 =
     (store1, Response 400 (Json [(''message'', S ''User already exists'')]))"
    using register_duplicate_or_created [where e = test_env and now = 40 and oid = bob_id
        and uname = "''carol''" and mail = "''a@x.com''" and pw = "Some ''pw3''" and st = store1] a
    by blast
  have s: "register test_env 40 bob_id ''bob'' ''b@x.com'' (Some ''pw2'') store1 =
     (store1\<lparr>users := [alice, \<lparr>u_id = bob_id, u_username = ''bob'', u_email = ''b@x.com'',
                u_password = ''$2a$pw2'', u_createdAt = 40, u_updatedAt = 40\<rparr>]\<rparr>,
      Response 201 (Json [(''message'', S ''User created successfully'')]))"
    using register_duplicate_or_created [where e = test_env and now = 40 and oid = bob_id
        and uname = "''bob''" and mail = "''b@x.com''" and pw = "Some ''pw2''"
        and password = "''pw2''" and st = store1] b c d
    by simp
  from a b c r s show ?thesis by blast
qed

text \<open>
  The claim as the spec states it, success whenever neither field collides, fails on
  the code. With the empty username, a fresh email and a string password there is no
  collision, validation fails on save and the answer is 500. With a fresh username and
  email and no string password there is no collision either, \<open>bcrypt.hash\<close> throws and
  the answer is 500. Nothing is persisted in either case.
\<close>

theorem register_not_created_counterexample:
  "findOne_email_or_username ''b@x.com'' '''' (users store1) = None \<and>
   register test_env 40 bob_id '''' ''b@x.com'' (Some ''pw2'') store1 =
     (store1, Response 500 (Json [(''message'', S ''Server error''),
                                  (''error'', Err (ValidationError [''username'']))])) \<and>
   status (snd (register test_env 40 bob_id '''' ''b@x.com'' (Some ''pw2'') store1)) \<noteq> 201 \<and>
   findOne_email_or_username ''b@x.com'' ''bob'' (users store1) = None \<and>
   register test_env 40 bob_id ''bob'' ''b@x.com'' None store1 =
     (store1, Response 500 (Json [(''message'', S ''Server error''),
                                  (''error'', Err IllegalArguments)])) \<and>
   status (snd (register test_env 40 bob_id ''bob'' ''b@x.com'' None store1)) \<noteq> 201"
proof -
  have n: "findOne_email_or_username ''b@x.com'' '''' (users store1) = None"
    by (simp add: findOne_email_or_username_def store1_def alice_def)
  have r: "register test_env 40 bob_id '''' ''b@x.com'' (Some ''pw2'') store1 =
     (store1, Response 500 (Json [(''message'', S ''Server error''),
                                  (''error'', Err (ValidationError [''username'']))]))"
    by (simp add: register_def n save_new_user_def user_invalid_paths_def required_def
        server_error_def test_env_def)
  have m: "findOne_email_or_username ''b@x.com'' ''bob'' (users store1) = None"
    by (simp add: findOne_email_or_username_def store1_def alice_def)
  have q: "register test_env 40 bob_id ''bob'' ''b@x.com'' None store1 =
     (store1, Response 500 (Json [(''message'', S ''Server error''),
                                  (''error'', Err IllegalArguments)]))"
    by (simp add: register_def m server_error_def)
  from n r m q show ?thesis by simp
qed

subsection \<open>Ownership\<close>

lemma findById_Some: "findById oid ps = Some p \<Longrightarrow> p_id p = oid \<and> p \<in> set ps"
  by (auto simp: findById_def find_Some_iff)

lemma findById_replaceById:
  "findById oid ps = Some p \<Longrightarrow> p_id q = oid \<Longrightarrow> findById oid (replaceById q ps) = Some q"
  by (induction ps) (auto simp: findById_def split: if_splits)

lemma replaceById_others:
  assumes "findById oid ps = Some p" "p_author p = a" "p_author q = a" "p_id q = oid"
  shows "filter (\<lambda>x. p_author x \<noteq> a) (replaceById q ps) = filter (\<lambda>x. p_author x \<noteq> a) ps"
  using assms by (induction ps) (auto simp: findById_def split: if_splits)

lemma deleteById_others:
  assumes "findById oid ps = Some p" "p_author p = a"
  shows "filter (\<lambda>x. p_author x \<noteq> a) (deleteById oid ps) = filter (\<lambda>x. p_author x \<noteq> a) ps"
  using assms by (induction ps) (auto simp: findById_def split: if_splits)

lemma update_post_others:
  "filter (\<lambda>x. p_author x \<noteq> userId u) (posts (fst (update_post e now ident reqfile title content u st))) =
   filter (\<lambda>x. p_author x \<noteq> userId u) (posts st)"
proof (cases "castObjectId e ident")
  case None
  then show ?thesis by (simp add: update_post_def)
next
  case (Some oid)
  note c = this
  show ?thesis
  proof (cases "findById oid (posts st)")
    case None
    with c show ?thesis by (simp add: update_post_def)
  next
    case (Some p)
    show ?thesis
    proof (cases "p_author p = userId u")
      case False
      with c Some show ?thesis by (simp add: update_post_def)
    next
      case True
      have i: "p_id p = oid" using Some by (simp add: findById_Some)
      show ?thesis
        using c Some True i replaceById_others [OF Some True]
        by (auto simp: update_post_def save_post_def Let_def split: option.splits)
    qed
  qed
qed

lemma delete_post_others:
  "filter (\<lambda>x. p_author x \<noteq> userId u) (posts (fst (delete_post e ident u st))) =
   filter (\<lambda>x. p_author x \<noteq> userId u) (posts st)"
  using deleteById_others
  by (auto simp: delete_post_def split: option.splits)

text \<open>
  Claim C1. When the id of an update or delete request names the post \<open>P\<close> and the
  identity's \<open>userId\<close> differs from \<open>P\<close>'s author, both handlers answer 403
  \<open>{ message: "Not authorized" }\<close> and leave the store as it is. Whatever the request,
  an update or a delete by an identity leaves every post of every other author in the
  store, unchanged and in the same order: only its author can change or remove a post.
\<close>

theorem only_author_mutates:
  "(castObjectId e ident = Some oid \<and> findById oid (posts st) = Some P \<and> userId u \<noteq> p_author P \<longrightarrow>
      update_post e now ident reqfile title content u st =
        (st, Response 403 (Json [(''message'', S ''Not authorized'')])) \<and>
      delete_post e ident u st = (st, Response 403 (Json [(''message'', S ''Not authorized'')]))) \<and>
   filter (\<lambda>x. p_author x \<noteq> userId u)
       (posts (fst (update_post e now ident reqfile title content u st))) =
     filter (\<lambda>x. p_author x \<noteq> userId u) (posts st) \<and>
   filter (\<lambda>x. p_author x \<noteq> userId u) (posts (fst (delete_post e ident u st))) =
     filter (\<lambda>x. p_author x \<noteq> userId u) (posts st)"
proof (intro conjI impI)
  assume h: "castObjectId e ident = Some oid \<and> findById oid (posts st) = Some P \<and> userId u \<noteq> p_author P"
  then have ne: "p_author P \<noteq> userId u" by auto
  show "update_post e now ident reqfile title content u st =
        (st, Response 403 (Json [(''message'', S ''Not authorized'')]))"
    using h ne by (simp add: update_post_def message_def)
  show "delete_post e ident u st = (st, Response 403 (Json [(''message'', S ''Not authorized'')]))"
    using h ne by (simp add: delete_post_def message_def)
next
  show "filter (\<lambda>x. p_author x \<noteq> userId u)
       (posts (fst (update_post e now ident reqfile title content u st))) =
     filter (\<lambda>x. p_author x \<noteq> userId u) (posts st)"
    by (rule update_post_others)
next
  show "filter (\<lambda>x. p_author x \<noteq> userId u) (posts (fst (delete_post e ident u st))) =
     filter (\<lambda>x. p_author x \<noteq> userId u) (posts st)"
    by (rule delete_post_others)
qed

theorem only_author_mutates_witness:
  "castObjectId test_env post1_id = Some post1_id \<and>
   findById post1_id (posts store1) = Some post1 \<and>
   userId bob_claims \<noteq> p_author post1 \<and>
   update_post test_env 30 post1_id None (Some ''Mine'') None bob_claims store1 =
     (store1, Response 403 (Json [(''message'', S ''Not authorized'')])) \<and>
   delete_post test_env post1_id bob_claims store1 =
     (store1, Response 403 (Json [(''message'', S ''Not authorized'')]))"
proof -
  have a: "castObjectId test_env post1_id = Some post1_id"
    by (simp add: test_env_def post1_id_def)
  have b: "findById post1_id (posts store1) = Some post1"
    by (simp add: findById_def store1_def post1_def)
  have c: "userId bob_claims \<noteq> p_author post1"
    by (simp add: bob_claims_def post1_def bob_id_def alice_id_def)
  show ?thesis
    using only_author_mutates [where e = test_env and ident = post1_id and oid = post1_id
        and st = store1 and P = post1 and u = bob_claims and now = 30 and reqfile = None
        and title = "Some ''Mine''" and content = None] a b c
    by simp
qed

text \<open>
  The same at the routes, with the middleware in front: multer has written the file of
  a PUT request before the handler refuses it, so only the uploads directory can differ.
\<close>

lemma route_update_forbidden:
  assumes "authenticateToken e t_auth h = Inr u"
    and "castObjectId e ident = Some oid"
    and "findById oid (posts st) = Some P"
    and "userId u \<noteq> p_author P"
  shows "\<exists>st'. route_update e t_auth t_up t_save ident h part title content st =
                 (st', Response 403 (Json [(''message'', S ''Not authorized'')])) \<and>
               posts st' = posts st \<and> users st' = users st"
proof -
  have ne: "p_author P \<noteq> userId u"
    using assms(4) by auto
  show ?thesis
  proof (cases part)
    case None
    then show ?thesis
      using assms(1-3) ne
      by (simp add: route_update_def protected_def upload_then_update_def upload_single_def
          update_post_def message_def)
  next
    case (Some orig)
    then show ?thesis
      using assms(1-3) ne
      by (simp add: route_update_def protected_def upload_then_update_def upload_single_def
          update_post_def message_def Let_def)
  qed
qed

lemma route_delete_forbidden:
  assumes "authenticateToken e t_auth h = Inr u"
    and "castObjectId e ident = Some oid"
    and "findById oid (posts st) = Some P"
    and "userId u \<noteq> p_author P"
  shows "route_delete e t_auth ident h st =
           (st, Response 403 (Json [(''message'', S ''Not authorized'')]))"
proof -
  have "p_author P \<noteq> userId u"
    using assms(4) by auto
  then show ?thesis
    using assms(1-3) by (simp add: route_delete_def protected_def delete_post_def message_def)
qed

subsection \<open>Update\<close>

lemma replaceById_other_ids:
  "filter (\<lambda>x. p_id x \<noteq> p_id q) (replaceById q ps) = filter (\<lambda>x. p_id x \<noteq> p_id q) ps"
  by (induction ps) auto

lemma or_else_nonempty: "d \<noteq> [] \<Longrightarrow> or_else a d \<noteq> []"
  by (simp add: or_else_def split: option.splits)

lemma post_invalid_paths_Nil:
  "(post_invalid_paths p = []) = (p_title p \<noteq> [] \<and> p_content p \<noteq> [] \<and> p_authorName p \<noteq> [])"
  by (simp add: post_invalid_paths_def required_def)

text \<open>
  Claim C6. Let the request id name the stored post \<open>P\<close>, let the identity be \<open>P\<close>'s
  author, and let \<open>P\<close> satisfy the schema (as every post saved by these handlers does,
  see \<open>create_post_keeps_schema\<close> and \<open>update_post_keeps_schema\<close>). Then the update
  answers 200 with the updated post \<open>P'\<close>, which is what the store now holds under the
  id. Its title is \<open>P\<close>'s when the title field is absent or empty, the new title
  otherwise; the same for the content; its image is \<open>/uploads/\<close> followed by the new
  file's name when a file came, \<open>P\<close>'s image otherwise; \<open>_id\<close>, \<open>author\<close>, \<open>authorName\<close>
  and \<open>createdAt\<close> are \<open>P\<close>'s. The other posts and the users are unchanged.
\<close>

theorem update_by_author:
  assumes "castObjectId e ident = Some oid"
    and "findById oid (posts st) = Some P"
    and "p_author P = userId u"
    and "post_invalid_paths P = []"
  shows "\<exists>st' P'. update_post e now ident reqfile title content u st = (st', Response 200 (PostDoc P')) \<and>
      findById oid (posts st') = Some P' \<and>
      p_title P' = (case title of None \<Rightarrow> p_title P | Some t \<Rightarrow> if t = [] then p_title P else t) \<and>
      p_content P' = (case content of None \<Rightarrow> p_content P | Some c \<Rightarrow> if c = [] then p_content P else c) \<and>
      p_image P' = (case reqfile of None \<Rightarrow> p_image P | Some f \<Rightarrow> Some (''/uploads/'' @ filename f)) \<and>
      p_id P' = p_id P \<and> p_author P' = p_author P \<and> p_authorName P' = p_authorName P \<and>
      p_createdAt P' = p_createdAt P \<and>
      filter (\<lambda>x. p_id x \<noteq> oid) (posts st') = filter (\<lambda>x. p_id x \<noteq> oid) (posts st) \<and>
      users st' = users st"
proof -
  define p3 where "p3 = P\<lparr>p_title := or_else title (p_title P),
      p_content := or_else content (p_content P),
      p_image := (case reqfile of None \<Rightarrow> p_image P | Some f \<Rightarrow> Some (''/uploads/'' @ filename f))\<rparr>"
  have i: "p_id P = oid"
    using assms(2) by (simp add: findById_Some)
  have v: "post_invalid_paths p3 = []"
    using assms(4) by (simp add: post_invalid_paths_Nil p3_def or_else_nonempty)
  have u: "update_post e now ident reqfile title content u st =
      (case save_post now P p3 st of
         Inl err \<Rightarrow> (st, server_error err)
       | Inr (st', saved) \<Rightarrow> (st', Response 200 (PostDoc saved)))"
    using assms(1,2,3) by (simp add: update_post_def p3_def Let_def split: option.splits)
  have f: "p_title p3 = (case title of None \<Rightarrow> p_title P | Some t \<Rightarrow> if t = [] then p_title P else t)"
    "p_content p3 = (case content of None \<Rightarrow> p_content P | Some c \<Rightarrow> if c = [] then p_content P else c)"
    "p_image p3 = (case reqfile of None \<Rightarrow> p_image P | Some f \<Rightarrow> Some (''/uploads/'' @ filename f))"
    "p_id p3 = oid" "p_author p3 = p_author P" "p_authorName p3 = p_authorName P"
    "p_createdAt p3 = p_createdAt P"
    using i by (simp_all add: p3_def or_else_def)
  show ?thesis
  proof (cases "p3 = P")
    case True
    then have "update_post e now ident reqfile title content u st = (st, Response 200 (PostDoc p3))"
      using u v by (simp add: save_post_def)
    then show ?thesis
      using f i True assms(2) by auto
  next
    case False
    let ?saved = "p3\<lparr>p_updatedAt := now\<rparr>"
    let ?st = "st\<lparr>posts := replaceById ?saved (posts st)\<rparr>"
    have r: "update_post e now ident reqfile title content u st = (?st, Response 200 (PostDoc ?saved))"
      using u v False by (simp add: save_post_def Let_def)
    have g: "findById oid (posts ?st) = Some ?saved"
      using findById_replaceById [OF assms(2), of ?saved] f(4) by simp
    have o: "filter (\<lambda>x. p_id x \<noteq> oid) (posts ?st) = filter (\<lambda>x. p_id x \<noteq> oid) (posts st)"
      using replaceById_other_ids [of ?saved "posts st"] f(4) by simp
    show ?thesis
      using r g o f i by auto
  qed
qed

theorem update_by_author_witness:
  "castObjectId test_env post1_id = Some post1_id \<and>
   findById post1_id (posts store1) = Some post1 \<and>
   p_author post1 = userId alice_claims \<and>
   post_invalid_paths post1 = [] \<and>
   update_post test_env 30 post1_id (Some \<lparr>originalname = ''cat.png'', filename = ''29.png''\<rparr>)
       None (Some '''') alice_claims store1 =
     (store1\<lparr>posts := [post1\<lparr>p_image := Some ''/uploads/29.png'', p_updatedAt := 30\<rparr>, post2]\<rparr>,
      Response 200 (PostDoc (post1\<lparr>p_image := Some ''/uploads/29.png'', p_updatedAt := 30\<rparr>)))"
proof -
  have a: "castObjectId test_env post1_id = Some post1_id"
    by (simp add: test_env_def post1_id_def)
  have b: "findById post1_id (posts store1) = Some post1"
    by (simp add: findById_def store1_def post1_def)
  have c: "p_author post1 = userId alice_claims"
    by (simp add: alice_claims_def post1_def)
  have d: "post_invalid_paths post1 = []"
    by (simp add: post_invalid_paths_def required_def post1_def)
  have r: "update_post test_env 30 post1_id (Some \<lparr>originalname = ''cat.png'', filename = ''29.png''\<rparr>)
       None (Some '''') alice_claims store1 =
     (store1\<lparr>posts := [post1\<lparr>p_image := Some ''/uploads/29.png'', p_updatedAt := 30\<rparr>, post2]\<rparr>,
      Response 200 (PostDoc (post1\<lparr>p_image := Some ''/uploads/29.png'', p_updatedAt := 30\<rparr>)))"
    using update_by_author [OF a b c d, where now = 30
        and reqfile = "Some \<lparr>originalname = ''cat.png'', filename = ''29.png''\<rparr>"
        and title = None and content = "Some ''''"]
    apply (simp add: update_post_def a b c or_else_def save_post_def d Let_def)
    by (simp add: post1_def post_invalid_paths_def required_def store1_def post2_def post1_id_def)
  from a b c d r show ?thesis by simp
qed

subsection \<open>Create\<close>

text \<open>
  Claim C7. Whenever \<open>upload.single("image")\<close> followed by the create handler answers
  201 with a post, that post is the one appended to the store, and its image is:
  \<open>/uploads/\<close>, then the clock at upload in decimal, then \<open>path.extname\<close> of the
  original name, when the request carried an image file; \<open>null\<close> when it did not. The
  handler does answer 201 when title and content are present and non-empty, the
  identity's \<open>userId\<close> is an ObjectId and its \<open>username\<close> is not empty.
\<close>

theorem create_records_image_path:
  "(upload_then_create e t_up t_save oid part title content u st = (st', Response 201 (PostDoc p)) \<longrightarrow>
      p_image p = (case part of
                     None \<Rightarrow> None
                   | Some orig \<Rightarrow> Some (''/uploads/'' @ decimal t_up @ path_extname e orig)) \<and>
      posts st' = posts st @ [p]) \<and>
   (title = Some t \<and> t \<noteq> [] \<and> content = Some c \<and> c \<noteq> [] \<and>
    castObjectId e (userId u) = Some a \<and> username u \<noteq> [] \<longrightarrow>
      (\<exists>st' p. upload_then_create e t_up t_save oid part title content u st =
                 (st', Response 201 (PostDoc p))))"
proof (intro conjI impI)
  assume h: "upload_then_create e t_up t_save oid part title content u st =
    (st', Response 201 (PostDoc p))"
  show "p_image p = (case part of
                     None \<Rightarrow> None
                   | Some orig \<Rightarrow> Some (''/uploads/'' @ decimal t_up @ path_extname e orig))"
    using h
    by (auto simp: upload_then_create_def upload_single_def storage_filename_def create_post_def
        new_post_def insert_post_def server_error_def Let_def
        split: option.splits sum.splits if_splits prod.splits)
  show "posts st' = posts st @ [p]"
    using h
    by (auto simp: upload_then_create_def upload_single_def storage_filename_def create_post_def
        new_post_def insert_post_def server_error_def Let_def
        split: option.splits sum.splits if_splits prod.splits)
next
  assume h: "title = Some t \<and> t \<noteq> [] \<and> content = Some c \<and> c \<noteq> [] \<and>
    castObjectId e (userId u) = Some a \<and> username u \<noteq> []"
  then show "\<exists>st' p. upload_then_create e t_up t_save oid part title content u st =
                 (st', Response 201 (PostDoc p))"
    by (simp add: upload_then_create_def upload_single_def create_post_def
        new_post_def insert_post_def required_def Let_def split: option.splits)
qed

theorem create_records_image_path_witness:
  "upload_then_create test_env 1700000000000 1700000000005 post1_id (Some ''cat.png'')
       (Some ''Hi'') (Some ''World'') alice_claims empty_store =
     (\<lparr>users = [], posts = [post1\<lparr>p_image := Some ''/uploads/1700000000000.png'',
                   p_createdAt := 1700000000005, p_updatedAt := 1700000000005\<rparr>],
       uploads = [''1700000000000.png'']\<rparr>,
      Response 201 (PostDoc (post1\<lparr>p_image := Some ''/uploads/1700000000000.png'',
                   p_createdAt := 1700000000005, p_updatedAt := 1700000000005\<rparr>))) \<and>
   decimal 1700000000000 @ path_extname test_env ''cat.png'' = ''1700000000000.png'' \<and>
   upload_then_create test_env 1700000000000 1700000000005 post1_id None
       (Some ''Hi'') (Some ''World'') alice_claims empty_store =
     (\<lparr>users = [], posts = [post1\<lparr>p_createdAt := 1700000000005, p_updatedAt := 1700000000005\<rparr>],
       uploads = []\<rparr>,
      Response 201 (PostDoc (post1\<lparr>p_createdAt := 1700000000005, p_updatedAt := 1700000000005\<rparr>)))"
proof -
  have n: "decimal 1700000000000 @ path_extname test_env ''cat.png'' = ''1700000000000.png''"
    by (simp add: decimal.simps test_env_def)
  have k: "castObjectId test_env alice_id = Some alice_id"
    by (simp add: test_env_def alice_id_def)
  have a: "upload_then_create test_env 1700000000000 1700000000005 post1_id (Some ''cat.png'')
       (Some ''Hi'') (Some ''World'') alice_claims empty_store =
     (\<lparr>users = [], posts = [post1\<lparr>p_image := Some ''/uploads/1700000000000.png'',
                   p_createdAt := 1700000000005, p_updatedAt := 1700000000005\<rparr>],
       uploads = [''1700000000000.png'']\<rparr>,
      Response 201 (PostDoc (post1\<lparr>p_image := Some ''/uploads/1700000000000.png'',
                   p_createdAt := 1700000000005, p_updatedAt := 1700000000005\<rparr>)))"
    using n
    by (simp add: upload_then_create_def upload_single_def storage_filename_def create_post_def
        new_post_def insert_post_def required_def Let_def k empty_store_def post1_def
        alice_claims_def)
  have b: "upload_then_create test_env 1700000000000 1700000000005 post1_id None
       (Some ''Hi'') (Some ''World'') alice_claims empty_store =
     (\<lparr>users = [], posts = [post1\<lparr>p_createdAt := 1700000000005, p_updatedAt := 1700000000005\<rparr>],
       uploads = []\<rparr>,
      Response 201 (PostDoc (post1\<lparr>p_createdAt := 1700000000005, p_updatedAt := 1700000000005\<rparr>)))"
    by (simp add: upload_then_create_def upload_single_def create_post_def
        new_post_def insert_post_def required_def Let_def k empty_store_def post1_def
        alice_claims_def)
  show ?thesis
    using create_records_image_path [where e = test_env and t_up = 1700000000000
        and t_save = 1700000000005 and oid = post1_id and part = "Some ''cat.png''"
        and title = "Some ''Hi''" and content = "Some ''World''" and u = alice_claims
        and st = empty_store and t = "''Hi''" and c = "''World''" and a = alice_id] a b n
    by simp
qed

subsection \<open>Identifiers that are not ObjectIds\<close>

text \<open>
  Claim C10. When the \<open>:id\<close> parameter does not cast to ObjectId, the handlers of
  GET, PUT and DELETE /api/posts/:id answer 500 \<open>{ message: "Server error", error }\<close>
  with the cast error, and the store is unchanged. Whenever one of them answers 404,
  the parameter did cast to an ObjectId and no post has it as \<open>_id\<close>.
\<close>

theorem malformed_id_is_server_error:
  "(castObjectId e ident = None \<longrightarrow>
      get_post e ident st =
        (st, Response 500 (Json [(''message'', S ''Server error''), (''error'', Err (CastError ident))])) \<and>
      update_post e now ident reqfile title content u st =
        (st, Response 500 (Json [(''message'', S ''Server error''), (''error'', Err (CastError ident))])) \<and>
      delete_post e ident u st =
        (st, Response 500 (Json [(''message'', S ''Server error''), (''error'', Err (CastError ident))]))) \<and>
   (status (snd (get_post e ident st)) = 404 \<or>
    status (snd (update_post e now ident reqfile title content u st)) = 404 \<or>
    status (snd (delete_post e ident u st)) = 404 \<longrightarrow>
      (\<exists>oid. castObjectId e ident = Some oid \<and> findById oid (posts st) = None))"
proof (intro conjI impI)
  assume "castObjectId e ident = None"
  then show "get_post e ident st =
        (st, Response 500 (Json [(''message'', S ''Server error''), (''error'', Err (CastError ident))]))"
    by (simp add: get_post_def server_error_def)
next
  assume "castObjectId e ident = None"
  then show "update_post e now ident reqfile title content u st =
        (st, Response 500 (Json [(''message'', S ''Server error''), (''error'', Err (CastError ident))]))"
    by (simp add: update_post_def server_error_def)
next
  assume "castObjectId e ident = None"
  then show "delete_post e ident u st =
        (st, Response 500 (Json [(''message'', S ''Server error''), (''error'', Err (CastError ident))]))"
    by (simp add: delete_post_def server_error_def)
next
  assume h: "status (snd (get_post e ident st)) = 404 \<or>
    status (snd (update_post e now ident reqfile title content u st)) = 404 \<or>
    status (snd (delete_post e ident u st)) = 404"
  show "\<exists>oid. castObjectId e ident = Some oid \<and> findById oid (posts st) = None"
  proof (cases "castObjectId e ident")
    case None
    with h show ?thesis
      by (simp add: get_post_def update_post_def delete_post_def server_error_def)
  next
    case (Some oid)
    show ?thesis
    proof (cases "findById oid (posts st)")
      case None
      with Some show ?thesis by simp
    next
      case (Some p)
      from h \<open>castObjectId e ident = Some oid\<close> Some show ?thesis
        by (auto simp: get_post_def update_post_def delete_post_def server_error_def message_def
            save_post_def Let_def split: if_splits sum.splits prod.splits option.splits)
    qed
  qed
qed

theorem malformed_id_is_server_error_witness:
  "castObjectId test_env ''42'' = None \<and>
   get_post test_env ''42'' store1 =
     (store1, Response 500 (Json [(''message'', S ''Server error''), (''error'', Err (CastError ''42''))])) \<and>
   update_post test_env 30 ''42'' None (Some ''x'') None alice_claims store1 =
     (store1, Response 500 (Json [(''message'', S ''Server error''), (''error'', Err (CastError ''42''))])) \<and>
   delete_post test_env ''42'' alice_claims store1 =
     (store1, Response 500 (Json [(''message'', S ''Server error''), (''error'', Err (CastError ''42''))])) \<and>
   status (snd (get_post test_env ''333333333333333333333333'' store1)) = 404 \<and>
   castObjectId test_env ''333333333333333333333333'' = Some ''333333333333333333333333'' \<and>
   findById ''333333333333333333333333'' (posts store1) = None"
proof -
  have a: "castObjectId test_env ''42'' = None"
    by (simp add: test_env_def)
  have b: "castObjectId test_env ''333333333333333333333333'' = Some ''333333333333333333333333''"
    by (simp add: test_env_def)
  have c: "findById ''333333333333333333333333'' (posts store1) = None"
    by (simp add: findById_def store1_def post1_def post2_def post1_id_def)
  have d: "status (snd (get_post test_env ''333333333333333333333333'' store1)) = 404"
    by (simp add: get_post_def b c message_def)
  show ?thesis
    using malformed_id_is_server_error [where e = test_env and ident = "''42''" and st = store1
        and now = 30 and reqfile = None and title = "Some ''x''" and content = None
        and u = alice_claims]
      malformed_id_is_server_error [where e = test_env and ident = "''333333333333333333333333''"
        and st = store1 and now = 30 and reqfile = None and title = "Some ''x''" and content = None
        and u = alice_claims]
      a b c d
    by simp
qed

subsection \<open>Stored posts satisfy the schema\<close>

lemma replaceById_all: "list_all Q ps \<Longrightarrow> Q q \<Longrightarrow> list_all Q (replaceById q ps)"
  by (induction ps) auto

lemma deleteById_all: "list_all Q ps \<Longrightarrow> list_all Q (deleteById oid ps)"
  by (induction ps) auto

lemma new_post_valid: "new_post e oid title content img auth authName = Inr p \<Longrightarrow> post_invalid_paths p = []"
  by (auto simp: new_post_def post_invalid_paths_def required_def Let_def
      split: option.splits if_splits)

lemma create_post_keeps_schema:
  assumes "list_all (\<lambda>p. post_invalid_paths p = []) (posts st)"
  shows "list_all (\<lambda>p. post_invalid_paths p = []) (posts (fst (create_post e now oid reqfile title content u st)))"
proof (cases "new_post e oid title content
    (case reqfile of None \<Rightarrow> None | Some f \<Rightarrow> Some (''/uploads/'' @ filename f)) (userId u) (username u)")
  case (Inl err)
  with assms show ?thesis by (simp add: create_post_def)
next
  case (Inr p)
  then have "post_invalid_paths p = []" by (rule new_post_valid)
  then have "post_invalid_paths (p\<lparr>p_createdAt := now, p_updatedAt := now\<rparr>) = []"
    by (simp add: post_invalid_paths_Nil)
  with assms Inr show ?thesis
    by (simp add: create_post_def insert_post_def Let_def)
qed

lemma update_post_keeps_schema:
  assumes "list_all (\<lambda>p. post_invalid_paths p = []) (posts st)"
  shows "list_all (\<lambda>p. post_invalid_paths p = []) (posts (fst (update_post e now ident reqfile title content u st)))"
  using assms
  by (auto simp: update_post_def save_post_def Let_def post_invalid_paths_Nil
      intro!: replaceById_all split: option.splits if_splits)

lemma delete_post_keeps_schema:
  assumes "list_all (\<lambda>p. post_invalid_paths p = []) (posts st)"
  shows "list_all (\<lambda>p. post_invalid_paths p = []) (posts (fst (delete_post e ident u st)))"
  using assms
  by (auto simp: delete_post_def intro!: deleteById_all split: option.splits)

end
